theory Spec2Isabelle
  imports Main "HOL-Library.Char_ord" "HOL-Library.List_Lexorder"
begin

section \<open>Data model\<close>

text \<open>
  The inference module works on an sc-memory store through handles. An \<open>ScAddr\<close> is an
  opaque handle; \<open>Replacements\<close> is the \<open>std::map\<close> from variable name to the column
  of its values, kept here as an association list in key order (the order a
  \<open>std::map\<close> iterates in); \<open>ScTemplateParams\<close> binds variable names to handles;
  a \<open>std::set<std::string>\<close> is the ascending list of its elements.
\<close>

type_synonym ScAddr = nat
type_synonym ScAddrVector = "ScAddr list"
type_synonym ScAddrQueue = "ScAddr list"
type_synonym Replacements = "(string \<times> ScAddrVector) list"
type_synonym ScTemplateParams = "(string \<times> ScAddr) list"

text \<open>
  \<open>ScTemplateGenResult\<close>: \<open>gen_items\<close> are the elements read by
  \<open>generationResult[i]\<close> for \<open>i < Size()\<close>; \<open>gen_replacements\<close> maps each name
  of \<open>GetReplacements()\<close> to the element \<open>generationResult[name]\<close>.
\<close>

record ScTemplateGenResult =
  gen_items :: ScAddrVector
  gen_replacements :: "(string \<times> ScAddr) list"

record LogicFormulaResult =
  "value" :: bool
  isGenerated :: bool
  replacements :: Replacements

text \<open>
  \<open>LogicExpressionResult\<close> is built positionally by \<open>check\<close> from two booleans, a
  binding table and the template; the fields are named by position, the first one
  being the truth value.
\<close>

record LogicExpressionResult =
  expr_value :: bool
  expr_hasSearchResult :: bool
  expr_searchResult :: Replacements
  expr_formulaTemplate :: ScAddr

datatype error =
  ExceptionInvalidState string
  | ExceptionItemNotFound string

text \<open>The members of a \<open>TemplateExpressionNode\<close> that the four operations read.\<close>

record TemplateExpressionNode =
  formulaTemplate :: ScAddr
  outputStructure :: ScAddr
  argumentVector :: ScAddrVector
  generateOnlyFirst :: bool

text \<open>The members of a \<open>FormulasIterationStrategyTarget\<close> that the driver reads.\<close>

record FormulasIterationStrategyTarget =
  targetStructure :: ScAddr
  generateSolutionTree :: bool

section \<open>Collaborators and the observable world\<close>

text \<open>
  Every call that leaves the two source files is recorded as an event, in call order;
  a \<open>HelperGenTemplate\<close> event carries the success flag the call returned.
  The store itself is a value of an arbitrary type \<open>'s\<close>, read by the searches and
  replaced by the calls that write.
\<close>

datatype event =
  EvSearchTemplate ScAddr ScTemplateParams
  | EvSearchTemplateVector ScAddr "ScTemplateParams list"
  | EvSearchTemplateVars ScAddr ScTemplateParams "string list"
  | EvGetVarNames ScAddr
  | EvCreateTemplateParams ScAddr
  | EvBuildTemplate ScAddr ScTemplateParams
  | EvGenTemplate ScAddr ScTemplateParams bool
  | EvAddToSet ScAddr ScAddr
  | EvCreateFormulasQueues ScAddr
  | EvUseFormula ScAddr
  | EvAddNode ScAddr

fun isWrite :: "event \<Rightarrow> bool" where
  "isWrite (EvGenTemplate p a ok) = True"
| "isWrite (EvAddToSet s e) = True"
| "isWrite (EvUseFormula f) = True"
| "isWrite (EvAddNode f) = True"
| "isWrite e = False"

record 's world =
  store :: 's
  log :: "event list"

definition logEvent :: "event \<Rightarrow> 's world \<Rightarrow> 's world" where
  "logEvent e w = w\<lparr>log := log w @ [e]\<rparr>"

text \<open>The events a run from \<open>w\<close> to \<open>w'\<close> has added.\<close>

definition newEvents :: "'s world \<Rightarrow> 's world \<Rightarrow> event list" where
  "newEvents w w' = drop (length (log w)) (log w')"

fun usedFormulas :: "event list \<Rightarrow> ScAddr list" where
  "usedFormulas [] = []"
| "usedFormulas (EvUseFormula f # evs) = f # usedFormulas evs"
| "usedFormulas (e # evs) = usedFormulas evs"

fun addedToSet :: "event list \<Rightarrow> ScAddr list" where
  "addedToSet [] = []"
| "addedToSet (EvAddToSet s x # evs) = x # addedToSet evs"
| "addedToSet (e # evs) = addedToSet evs"

fun isSuccessfulGen :: "event \<Rightarrow> bool" where
  "isSuccessfulGen (EvGenTemplate p a ok) = ok"
| "isSuccessfulGen e = False"

text \<open>
  The functions the two files call and do not define (the template searcher, the template
  manager, the memory context, the replacement utilities, the solution tree manager and
  the base class of the strategy) are parameters of the model. Searches read the store;
  \<open>HelperGenTemplate\<close>, \<open>addToSet\<close>, \<open>useFormula\<close> and \<open>addNode\<close> return the
  store they leave behind. \<open>useFormula\<close> may raise, as \<open>generate\<close> does.
\<close>

record ('s, 't) gateway =
  searchTemplate :: "'s \<Rightarrow> ScAddr \<Rightarrow> ScTemplateParams \<Rightarrow> Replacements"
  searchTemplateVector :: "'s \<Rightarrow> ScAddr \<Rightarrow> ScTemplateParams list \<Rightarrow> Replacements"
  searchTemplateVars :: "'s \<Rightarrow> ScAddr \<Rightarrow> ScTemplateParams \<Rightarrow> string list \<Rightarrow> Replacements"
  getVarNames :: "'s \<Rightarrow> ScAddr \<Rightarrow> string list"
  createTemplateParams :: "'s \<Rightarrow> ScAddr \<Rightarrow> ScAddrVector \<Rightarrow> ScTemplateParams list"
  createTargetParams :: "'s \<Rightarrow> ScAddr \<Rightarrow> ScTemplateParams list"
  HelperBuildTemplate :: "'s \<Rightarrow> ScAddr \<Rightarrow> ScTemplateParams \<Rightarrow> 't"
  HelperGenTemplate :: "'s \<Rightarrow> 't \<Rightarrow> bool \<times> ScTemplateGenResult \<times> 's"
  addToSet :: "'s \<Rightarrow> ScAddr \<Rightarrow> ScAddr \<Rightarrow> 's"
  getReplacementsToScTemplateParams :: "Replacements \<Rightarrow> ScTemplateParams list"
  getKeySet :: "Replacements \<Rightarrow> string list"
  uniteReplacements :: "Replacements \<Rightarrow> Replacements \<Rightarrow> Replacements"
  createFormulasQueuesListByPriority :: "'s \<Rightarrow> ScAddr \<Rightarrow> ScAddrQueue list"
  useFormula :: "'s \<Rightarrow> ScAddr \<Rightarrow> ScAddr \<Rightarrow> (error + LogicFormulaResult) \<times> 's"
  addNode :: "'s \<Rightarrow> ScAddr \<Rightarrow> ScTemplateParams list \<Rightarrow> string list \<Rightarrow> 's"

section \<open>TemplateExpressionNode\<close>

text \<open>
  The \<open>SC_LOG\<close> lines, the identifiers read for them and the counter \<open>count\<close>
  that only a log line prints are left out.
\<close>

text \<open>\<open>templateSearcher->searchTemplate(formulaTemplate, params)\<close>, one assignment.\<close>

definition doSearch ::
  "('s, 't) gateway \<Rightarrow> ScAddr \<Rightarrow> ScTemplateParams \<Rightarrow> 's world \<Rightarrow> Replacements \<times> 's world" where
  "doSearch gw tmpl params w =
     (searchTemplate gw (store w) tmpl params, logEvent (EvSearchTemplate tmpl params) w)"

text \<open>\<open>templateSearcher->searchTemplate(formulaTemplate, paramsVector)\<close>, batched.\<close>

definition doSearchVector ::
  "('s, 't) gateway \<Rightarrow> ScAddr \<Rightarrow> ScTemplateParams list \<Rightarrow> 's world \<Rightarrow> Replacements \<times> 's world" where
  "doSearchVector gw tmpl ps w =
     (searchTemplateVector gw (store w) tmpl ps, logEvent (EvSearchTemplateVector tmpl ps) w)"

text \<open>
  \<open>check\<close>: searches the template under the given parameters, logs the outcome and
  returns \<open>{true, true, searchResult, formulaTemplate}\<close>.
\<close>

definition check ::
  "('s, 't) gateway \<Rightarrow> TemplateExpressionNode \<Rightarrow> ScTemplateParams \<Rightarrow> 's world
     \<Rightarrow> LogicExpressionResult \<times> 's world" where
  "check gw node params w =
     (case doSearch gw (formulaTemplate node) params w of
        (searchResult, w1) \<Rightarrow>
          (\<lparr>expr_value = True, expr_hasSearchResult = True,
            expr_searchResult = searchResult,
            expr_formulaTemplate = formulaTemplate node\<rparr>, w1))"

text \<open>
  \<open>compute\<close>: with a non-empty argument vector the template manager builds the
  parameter vector and the batched search runs on it; otherwise one search with empty
  parameters. The result passed by reference gets its \<open>replacements\<close> and \<open>value\<close>.
\<close>

definition compute ::
  "('s, 't) gateway \<Rightarrow> TemplateExpressionNode \<Rightarrow> LogicFormulaResult \<Rightarrow> 's world
     \<Rightarrow> LogicFormulaResult \<times> 's world" where
  "compute gw node result w =
     (case (if argumentVector node \<noteq> []
            then doSearchVector gw (formulaTemplate node)
                   (createTemplateParams gw (store w) (formulaTemplate node) (argumentVector node))
                   (logEvent (EvCreateTemplateParams (formulaTemplate node)) w)
            else doSearch gw (formulaTemplate node) [] w) of
        (reps, w1) \<Rightarrow>
          (result\<lparr>replacements := reps, value := (reps \<noteq> [])\<rparr>, w1))"

text \<open>\<open>find\<close>: batched search over the rows of the given table.\<close>

definition find_node ::
  "('s, 't) gateway \<Rightarrow> TemplateExpressionNode \<Rightarrow> bool \<Rightarrow> Replacements \<Rightarrow> 's world
     \<Rightarrow> LogicFormulaResult \<times> 's world" where
  "find_node gw node isGenerated0 reps w =
     (case doSearchVector gw (formulaTemplate node)
             (getReplacementsToScTemplateParams gw reps) w of
        (found, w1) \<Rightarrow>
          (\<lparr>value = (found \<noteq> []), isGenerated = isGenerated0, replacements = found\<rparr>, w1))"

text \<open>
  The inner loop of \<open>generate\<close> over \<open>varNames\<close>: the value of a name comes from the
  generation result if that has the name, else from the template parameters, else
  \<open>ExceptionInvalidState\<close> is thrown. The names are distinct and ascending, so
  \<open>temporalReplacements[name] = replacementsVector\<close> appends an entry.
\<close>

fun resolveNames ::
  "ScTemplateGenResult \<Rightarrow> ScTemplateParams \<Rightarrow> string list \<Rightarrow> error + Replacements" where
  "resolveNames generationResult params [] = Inr []"
| "resolveNames generationResult params (name # names) =
     (case map_of (gen_replacements generationResult) name of
        Some a \<Rightarrow>
          (case resolveNames generationResult params names of
             Inl e \<Rightarrow> Inl e
           | Inr temporal \<Rightarrow> Inr ((name, [a]) # temporal))
      | None \<Rightarrow>
          (case map_of params name of
             Some outResult \<Rightarrow>
               (case resolveNames generationResult params names of
                  Inl e \<Rightarrow> Inl e
                | Inr temporal \<Rightarrow> Inr ((name, [outResult]) # temporal))
           | None \<Rightarrow> Inl (ExceptionInvalidState name)))"

text \<open>
  The loop \<open>for (i = 0; i < generationResult.Size(); ++i) addToSet(context,
  outputStructure, generationResult[i])\<close>.
\<close>

fun addAllToSet :: "('s, 't) gateway \<Rightarrow> ScAddr \<Rightarrow> ScAddrVector \<Rightarrow> 's world \<Rightarrow> 's world" where
  "addAllToSet gw out [] w = w"
| "addAllToSet gw out (x # xs) w =
     addAllToSet gw out xs
       (logEvent (EvAddToSet out x) (w\<lparr>store := addToSet gw (store w) out x\<rparr>))"

text \<open>
  \<open>HelperBuildTemplate\<close> followed by \<open>HelperGenTemplate\<close>: the success flag, the
  generation result and the world after the write.
\<close>

definition doGenerate ::
  "('s, 't) gateway \<Rightarrow> ScAddr \<Rightarrow> ScTemplateParams \<Rightarrow> 's world
     \<Rightarrow> bool \<times> ScTemplateGenResult \<times> 's world" where
  "doGenerate gw tmpl params w =
     (case HelperGenTemplate gw (store w) (HelperBuildTemplate gw (store w) tmpl params) of
        (genTemplate, generationResult, s') \<Rightarrow>
          (genTemplate, generationResult,
           logEvent (EvGenTemplate tmpl params genTemplate)
             (logEvent (EvBuildTemplate tmpl params) w)\<lparr>store := s'\<rparr>))"

text \<open>One pass through the body of the loop over \<open>paramsVector\<close>, after the break test.\<close>

definition generateRow ::
  "('s, 't) gateway \<Rightarrow> TemplateExpressionNode \<Rightarrow> string list \<Rightarrow> ScTemplateParams
     \<Rightarrow> LogicFormulaResult \<Rightarrow> 's world \<Rightarrow> (error + LogicFormulaResult) \<times> 's world" where
  "generateRow gw node varNames scTemplateParams result w =
     (case doSearch gw (formulaTemplate node) scTemplateParams w of
        (searchResult, w1) \<Rightarrow>
          if searchResult = [] then
            (case doGenerate gw (formulaTemplate node) scTemplateParams w1 of
               (genTemplate, generationResult, w2) \<Rightarrow>
                 if genTemplate then
                   (case resolveNames generationResult scTemplateParams varNames of
                      Inl e \<Rightarrow> (Inl e, w2)
                    | Inr temporalReplacements \<Rightarrow>
                        (Inr (result\<lparr>isGenerated := True, value := True,
                                replacements :=
                                  uniteReplacements gw (replacements result) temporalReplacements\<rparr>),
                         addAllToSet gw (outputStructure node) (gen_items generationResult) w2))
                 else
                   (Inr result,
                    addAllToSet gw (outputStructure node) (gen_items generationResult) w2))
          else (Inr result, w1))"

text \<open>The loop over \<open>paramsVector\<close>, with its break and with exceptions leaving it.\<close>

fun generateRows ::
  "('s, 't) gateway \<Rightarrow> TemplateExpressionNode \<Rightarrow> string list \<Rightarrow> ScTemplateParams list
     \<Rightarrow> LogicFormulaResult \<Rightarrow> 's world \<Rightarrow> (error + LogicFormulaResult) \<times> 's world" where
  "generateRows gw node varNames [] result w = (Inr result, w)"
| "generateRows gw node varNames (scTemplateParams # rest) result w =
     (if generateOnlyFirst node \<and> isGenerated result then (Inr result, w)
      else
        (case generateRow gw node varNames scTemplateParams result w of
           (Inl e, w1) \<Rightarrow> (Inl e, w1)
         | (Inr result1, w1) \<Rightarrow> generateRows gw node varNames rest result1 w1))"

text \<open>
  The set \<open>varNames\<close> of \<open>generate\<close>: the keys of the table and the variable names of
  the template, inserted into one \<open>std::set\<close>.
\<close>

definition unionVarNames :: "string list \<Rightarrow> string list \<Rightarrow> string list" where
  "unionVarNames replacementVarNames templateVarNames =
     sort (remdups (replacementVarNames @ templateVarNames))"

text \<open>
  \<open>generate\<close>. \<open>value0\<close> is what the \<open>value\<close> field of a default-constructed
  \<open>LogicFormulaResult\<close> holds; \<open>isGenerated\<close> is set to false and the table of a
  default-constructed result is empty.
\<close>

definition generate ::
  "('s, 't) gateway \<Rightarrow> TemplateExpressionNode \<Rightarrow> bool \<Rightarrow> Replacements \<Rightarrow> 's world
     \<Rightarrow> (error + LogicFormulaResult) \<times> 's world" where
  "generate gw node value0 reps w =
     (let result = \<lparr>value = value0, isGenerated = False, replacements = []\<rparr>;
          paramsVector = getReplacementsToScTemplateParams gw reps;
          replacementVarNames = getKeySet gw reps;
          templateVarNames = getVarNames gw (store w) (formulaTemplate node);
          w1 = logEvent (EvGetVarNames (formulaTemplate node)) w;
          varNames = unionVarNames replacementVarNames templateVarNames
      in if paramsVector = [] then
           (case compute gw node result w1 of (r, w2) \<Rightarrow> (Inr r, w2))
         else generateRows gw node varNames paramsVector result w1)"

section \<open>FormulasIterationStrategyTarget\<close>

text \<open>
  \<open>isTargetAchieved\<close>: \<open>std::any_of\<close> over the parameter vector, stopping at the
  first assignment whose search, restricted to the variable names of the target, is
  not empty.
\<close>

fun anyTargetSearch ::
  "('s, 't) gateway \<Rightarrow> ScAddr \<Rightarrow> string list \<Rightarrow> ScTemplateParams list \<Rightarrow> 's world
     \<Rightarrow> bool \<times> 's world" where
  "anyTargetSearch gw target varNames [] w = (False, w)"
| "anyTargetSearch gw target varNames (templateParams # rest) w =
     (if searchTemplateVars gw (store w) target templateParams varNames \<noteq> []
      then (True, logEvent (EvSearchTemplateVars target templateParams varNames) w)
      else anyTargetSearch gw target varNames rest
             (logEvent (EvSearchTemplateVars target templateParams varNames) w))"

definition isTargetAchieved ::
  "('s, 't) gateway \<Rightarrow> FormulasIterationStrategyTarget \<Rightarrow> ScTemplateParams list \<Rightarrow> 's world
     \<Rightarrow> bool \<times> 's world" where
  "isTargetAchieved gw strategy templateParamsVector w =
     anyTargetSearch gw (targetStructure strategy)
       (getVarNames gw (store w) (targetStructure strategy)) templateParamsVector
       (logEvent (EvGetVarNames (targetStructure strategy)) w)"

text \<open>
  Modelled from the spec: \<open>ContainersUtils::addToQueue\<close> is not in the two files; the
  driver "moves all formulas from checked back into the working set", so the elements
  of the vector are pushed to the back of the queue, in order.
\<close>

definition addToQueue :: "ScAddrVector \<Rightarrow> ScAddrQueue \<Rightarrow> ScAddrQueue" where
  "addToQueue elements queue = queue @ elements"

text \<open>The call \<open>useFormula(formula, outputStructure)\<close> of the base class.\<close>

definition doUseFormula ::
  "('s, 't) gateway \<Rightarrow> ScAddr \<Rightarrow> ScAddr \<Rightarrow> 's world \<Rightarrow> (error + LogicFormulaResult) \<times> 's world" where
  "doUseFormula gw formula out w =
     (case useFormula gw (store w) formula out of
        (r, s') \<Rightarrow> (r, logEvent (EvUseFormula formula) (w\<lparr>store := s'\<rparr>)))"

text \<open>The solution tree node added after a formula has generated.\<close>

definition doAddNode ::
  "('s, 't) gateway \<Rightarrow> ScAddr \<Rightarrow> LogicFormulaResult \<Rightarrow> 's world \<Rightarrow> 's world" where
  "doAddNode gw formula formulaResult w =
     logEvent (EvAddNode formula)
       (w\<lparr>store := addNode gw (store w) formula
                     (getReplacementsToScTemplateParams gw (replacements formulaResult))
                     (getKeySet gw (replacements formulaResult))\<rparr>)"

text \<open>
  The loop \<open>while (!uncheckedFormulas.empty())\<close>. Its state is the queue, the vector of
  checked formulas and the index of the enclosing loop; it ends with the queue empty
  or, by \<open>break\<close>, with the target achieved, and it returns the checked formulas, the
  index and \<open>targetAchieved\<close>. An exception of \<open>useFormula\<close> leaves it.
\<close>

function whileUnchecked ::
  "('s, 't) gateway \<Rightarrow> FormulasIterationStrategyTarget \<Rightarrow> ScAddr \<Rightarrow> ScTemplateParams list
     \<Rightarrow> ScAddrQueue \<Rightarrow> ScAddrVector \<Rightarrow> nat \<Rightarrow> 's world
     \<Rightarrow> (error + (ScAddrVector \<times> nat \<times> bool)) \<times> 's world" where
  "whileUnchecked gw strategy out templateParamsVector uncheckedFormulas checkedFormulas
       formulasQueueIndex w =
     (case uncheckedFormulas of
        [] \<Rightarrow> (Inr (checkedFormulas, formulasQueueIndex, False), w)
      | formula # popped \<Rightarrow>
          (case doUseFormula gw formula out w of
             (Inl e, w1) \<Rightarrow> (Inl e, w1)
           | (Inr formulaResult, w1) \<Rightarrow>
               if isGenerated formulaResult then
                 (case isTargetAchieved gw strategy templateParamsVector
                         (if generateSolutionTree strategy
                          then doAddNode gw formula formulaResult w1 else w1) of
                    (targetAchieved, w2) \<Rightarrow>
                      if targetAchieved
                      then (Inr (checkedFormulas, formulasQueueIndex, True), w2)
                      else whileUnchecked gw strategy out templateParamsVector
                             (tl (addToQueue checkedFormulas uncheckedFormulas)) [] 0 w2)
               else whileUnchecked gw strategy out templateParamsVector
                      popped (checkedFormulas @ [formula]) formulasQueueIndex w1))"
  by pat_completeness auto
termination
  by (relation "measures [\<lambda>(gw, strategy, out, tpv, unchecked, checked, idx, w).
                             length unchecked + length checked,
                          \<lambda>(gw, strategy, out, tpv, unchecked, checked, idx, w).
                             length unchecked]")
     (auto simp: addToQueue_def)

declare whileUnchecked.simps [simp del]

text \<open>
  The loop \<open>for (formulasQueueIndex = 0; formulasQueueIndex < size && !targetAchieved;
  formulasQueueIndex++)\<close>. The body may reset the index, so the loop need not end:
  \<open>None\<close> is the run that never returns.
\<close>

partial_function (option) forQueues ::
  "('s, 't) gateway \<Rightarrow> FormulasIterationStrategyTarget \<Rightarrow> ScAddr \<Rightarrow> ScTemplateParams list
     \<Rightarrow> ScAddrQueue list \<Rightarrow> ScAddrVector \<Rightarrow> nat \<Rightarrow> bool \<Rightarrow> 's world
     \<Rightarrow> ((error + bool) \<times> 's world) option" where
  "forQueues gw strategy out templateParamsVector formulasQueuesByPriority checkedFormulas
       formulasQueueIndex targetAchieved w =
     (if formulasQueueIndex < length formulasQueuesByPriority \<and> \<not> targetAchieved then
        (case whileUnchecked gw strategy out templateParamsVector
                (formulasQueuesByPriority ! formulasQueueIndex) checkedFormulas
                formulasQueueIndex w of
           (Inl e, w1) \<Rightarrow> Some (Inl e, w1)
         | (Inr (checked1, index1, achieved1), w1) \<Rightarrow>
             forQueues gw strategy out templateParamsVector formulasQueuesByPriority
               checked1 (index1 + 1) achieved1 w1)
      else Some (Inr targetAchieved, w))"

text \<open>
  \<open>applyIterationStrategy\<close>: the target test first, then the queues by priority, the
  exception for an empty list of queues, and the two loops.
\<close>

definition applyIterationStrategy ::
  "('s, 't) gateway \<Rightarrow> FormulasIterationStrategyTarget \<Rightarrow> ScAddr \<Rightarrow> ScAddr \<Rightarrow> 's world
     \<Rightarrow> ((error + bool) \<times> 's world) option" where
  "applyIterationStrategy gw strategy formulasSet out w =
     (let templateParamsVector = createTargetParams gw (store w) (targetStructure strategy);
          w0 = logEvent (EvCreateTemplateParams (targetStructure strategy)) w
      in case isTargetAchieved gw strategy templateParamsVector w0 of
           (targetAchieved, w1) \<Rightarrow>
             if targetAchieved then Some (Inr False, w1)
             else
               (let formulasQueuesByPriority =
                      createFormulasQueuesListByPriority gw (store w1) formulasSet;
                    w2 = logEvent (EvCreateFormulasQueues formulasSet) w1
                in if formulasQueuesByPriority = []
                   then Some (Inl (ExceptionItemNotFound ''No rule sets found.''), w2)
                   else forQueues gw strategy out templateParamsVector
                          formulasQueuesByPriority [] 0 targetAchieved w2))"

section \<open>What the specification says of a generated row\<close>

text \<open>
  The value the specification gives a variable name after a successful write: the one
  bound by the generation result, otherwise the one of the input assignment, and none
  when neither has the name. This definition follows the specification; the code is
  \<open>resolveNames\<close>.
\<close>

definition resolvedValue :: "ScTemplateGenResult \<Rightarrow> ScTemplateParams \<Rightarrow> string \<Rightarrow> ScAddr option" where
  "resolvedValue generationResult params name =
     (case map_of (gen_replacements generationResult) name of
        Some a \<Rightarrow> Some a
      | None \<Rightarrow> map_of params name)"

section \<open>An example store\<close>

text \<open>
  A small store on which the operations can be run. It holds the instantiations
  written so far, each a template with its parameters, and the elements added to
  output structures. A search finds a template under parameters when that
  instantiation is in the store. Templates below 100 instantiate: the write creates
  one element, bound to the variable \<open>_new\<close>. Templates from 100 on fail to
  instantiate and leave one element behind. Template 7 has a second variable \<open>_z\<close>
  that no write binds.
\<close>

record exampleStore =
  facts :: "(ScAddr \<times> ScTemplateParams) list"
  produced :: "(ScAddr \<times> ScAddr) list"

definition exampleSearch :: "exampleStore \<Rightarrow> ScAddr \<Rightarrow> ScTemplateParams \<Rightarrow> Replacements" where
  "exampleSearch s t a = (if (t, a) \<in> set (facts s) then [(''_found'', [t])] else [])"

definition exampleGen ::
  "exampleStore \<Rightarrow> ScAddr \<times> ScTemplateParams \<Rightarrow> bool \<times> ScTemplateGenResult \<times> exampleStore" where
  "exampleGen s ta =
     (if fst ta < 100
      then (True, \<lparr>gen_items = [fst ta + 1000], gen_replacements = [(''_new'', fst ta + 1000)]\<rparr>,
            s\<lparr>facts := facts s @ [ta]\<rparr>)
      else (False, \<lparr>gen_items = [fst ta + 2000], gen_replacements = []\<rparr>, s))"

text \<open>
  The rules of the example: formula 1 derives fact 11 from fact 10 and fact 21 from
  fact 20, formula 2 derives fact 20 from fact 11, every other formula derives nothing.
  A formula generates when a premise is in the store and its conclusion is not.
\<close>

definition exampleRules :: "ScAddr \<Rightarrow> (ScAddr \<times> ScAddr) list" where
  "exampleRules f = (if f = 1 then [(10, 11), (20, 21)] else if f = 2 then [(11, 20)] else [])"

definition exampleUseFormula ::
  "exampleStore \<Rightarrow> ScAddr \<Rightarrow> ScAddr \<Rightarrow> (error + LogicFormulaResult) \<times> exampleStore" where
  "exampleUseFormula s f out =
     (let new = map snd (filter (\<lambda>pc. (fst pc, []) \<in> set (facts s) \<and> (snd pc, []) \<notin> set (facts s))
                           (exampleRules f))
      in (Inr \<lparr>value = (new \<noteq> []), isGenerated = (new \<noteq> []), replacements = []\<rparr>,
          s\<lparr>facts := facts s @ map (\<lambda>c. (c, [])) new\<rparr>))"

text \<open>
  Modelled from the spec: the replacement utilities are not in the two files. The rows
  of a table are its transposition, its key names are its keys, and uniting two tables
  appends the columns of the second to those of the first, an empty table being the
  identity.
\<close>

definition exampleRows :: "Replacements \<Rightarrow> ScTemplateParams list" where
  "exampleRows r = map (zip (map fst r)) (transpose (map snd r))"

definition exampleUnite :: "Replacements \<Rightarrow> Replacements \<Rightarrow> Replacements" where
  "exampleUnite a b =
     (if a = [] then b else if b = [] then a
      else map (\<lambda>nc. (fst nc, snd nc @ (case map_of b (fst nc) of Some d \<Rightarrow> d | None \<Rightarrow> []))) a)"

definition exampleGateway :: "(exampleStore, ScAddr \<times> ScTemplateParams) gateway" where
  "exampleGateway =
     \<lparr>searchTemplate = exampleSearch,
      searchTemplateVector = (\<lambda>s t ps. concat (map (exampleSearch s t) ps)),
      searchTemplateVars = (\<lambda>s t a names. exampleSearch s t a),
      getVarNames = (\<lambda>s t. if t = 7 then [''_new'', ''_z''] else [''_new'']),
      createTemplateParams = (\<lambda>s t args. map (\<lambda>x. [(''_arg'', x)]) args),
      createTargetParams = (\<lambda>s t. [[]]),
      HelperBuildTemplate = (\<lambda>s t a. (t, a)),
      HelperGenTemplate = exampleGen,
      addToSet = (\<lambda>s out x. s\<lparr>produced := produced s @ [(out, x)]\<rparr>),
      getReplacementsToScTemplateParams = exampleRows,
      getKeySet = map fst,
      uniteReplacements = exampleUnite,
      createFormulasQueuesListByPriority =
        (\<lambda>s formulasSet. if formulasSet = 0 then [] else if formulasSet = 1 then [[1, 2], [3]]
                           else if formulasSet = 2 then [[1], [2]] else [[3], [4]]),
      useFormula = exampleUseFormula,
      addNode = (\<lambda>s f rows names. s)\<rparr>"

definition exampleWorld :: "(ScAddr \<times> ScTemplateParams) list \<Rightarrow> exampleStore world" where
  "exampleWorld fs = \<lparr>store = \<lparr>facts = fs, produced = []\<rparr>, log = []\<rparr>"

definition exampleNode :: "ScAddr \<Rightarrow> TemplateExpressionNode" where
  "exampleNode t =
     \<lparr>formulaTemplate = t, outputStructure = 500, argumentVector = [], generateOnlyFirst = False\<rparr>"

definition exampleStrategy :: "ScAddr \<Rightarrow> FormulasIterationStrategyTarget" where
  "exampleStrategy t = \<lparr>targetStructure = t, generateSolutionTree = False\<rparr>"

section \<open>The world only grows\<close>

lemma store_logEvent [simp]: "store (logEvent e w) = store w"
  by (simp add: logEvent_def)

lemma log_logEvent [simp]: "log (logEvent e w) = log w @ [e]"
  by (simp add: logEvent_def)

lemma newEvents_append: "log w' = log w @ evs \<Longrightarrow> newEvents w w' = evs"
  by (simp add: newEvents_def)

lemma anyTargetSearch_world:
  "anyTargetSearch gw target names ps w = (b, w') \<Longrightarrow>
     store w' = store w \<and> (\<exists>evs. log w' = log w @ evs \<and> filter isWrite evs = [])"
proof (induction ps arbitrary: w)
  case Nil
  then show ?case by simp
next
  case (Cons p ps)
  show ?case
  proof (cases "searchTemplateVars gw (store w) target p names \<noteq> []")
    case True
    with Cons.prems show ?thesis by auto
  next
    case False
    with Cons.prems have
      "anyTargetSearch gw target names ps (logEvent (EvSearchTemplateVars target p names) w) = (b, w')"
      by simp
    from Cons.IH [OF this] show ?thesis by auto
  qed
qed

lemma isTargetAchieved_world:
  "isTargetAchieved gw strategy tpv w = (b, w') \<Longrightarrow>
     store w' = store w \<and> (\<exists>evs. log w' = log w @ evs \<and> filter isWrite evs = [])"
  unfolding isTargetAchieved_def
  by (drule anyTargetSearch_world) auto

lemma compute_world:
  "compute gw node result w = (r, w') \<Longrightarrow>
     store w' = store w \<and> isGenerated r = isGenerated result
     \<and> (\<exists>evs. log w' = log w @ evs \<and> filter isWrite evs = [])"
  by (auto simp: compute_def doSearch_def doSearchVector_def split: if_splits)

section \<open>check\<close>

text \<open>
  Whatever the search finds, \<open>check\<close> returns the truth value \<open>true\<close>; the search
  result is passed on in the third field, the store is left as it was and the one call
  made is the search.
\<close>

lemma check_always_true:
  "expr_value (fst (check gw node params w)) = True
   \<and> expr_searchResult (fst (check gw node params w))
       = searchTemplate gw (store w) (formulaTemplate node) params
   \<and> store (snd (check gw node params w)) = store w
   \<and> newEvents w (snd (check gw node params w)) = [EvSearchTemplate (formulaTemplate node) params]"
  by (simp add: check_def doSearch_def newEvents_def)

text \<open>
  C1. The claim: \<open>check\<close> returns true exactly when the search of the pattern under
  the assignment has at least one match. On the empty example store the search of
  template 5 under the empty assignment has no match, and \<open>check\<close> returns true.
\<close>

theorem check_true_without_match:
  "searchTemplate exampleGateway (store (exampleWorld [])) (formulaTemplate (exampleNode 5)) [] = []
   \<and> expr_value (fst (check exampleGateway (exampleNode 5) [] (exampleWorld []))) = True"
  by (simp add: check_def doSearch_def exampleGateway_def exampleSearch_def exampleWorld_def
        exampleNode_def)

section \<open>applyIterationStrategy: the target test at entry\<close>

text \<open>
  C6. If \<open>isTargetAchieved\<close> is true on entry, \<open>applyIterationStrategy\<close> returns
  false, leaves the store as it was and makes no call that writes.
\<close>

theorem target_already_achieved_noop:
  assumes "fst (isTargetAchieved gw strategy
                  (createTargetParams gw (store w) (targetStructure strategy))
                  (logEvent (EvCreateTemplateParams (targetStructure strategy)) w))"
  shows "\<exists>w'. applyIterationStrategy gw strategy formulasSet out w = Some (Inr False, w')
           \<and> store w' = store w \<and> filter isWrite (newEvents w w') = []"
proof -
  obtain b w1 where tgt:
    "isTargetAchieved gw strategy (createTargetParams gw (store w) (targetStructure strategy))
       (logEvent (EvCreateTemplateParams (targetStructure strategy)) w) = (b, w1)"
    by (cases "isTargetAchieved gw strategy
                 (createTargetParams gw (store w) (targetStructure strategy))
                 (logEvent (EvCreateTemplateParams (targetStructure strategy)) w)")
  with assms have b by simp
  from isTargetAchieved_world [OF tgt] obtain evs where
    w1: "store w1 = store w"
        "log w1 = log w @ EvCreateTemplateParams (targetStructure strategy) # evs"
        "filter isWrite evs = []"
    by auto
  have "applyIterationStrategy gw strategy formulasSet out w = Some (Inr False, w1)"
    using tgt \<open>b\<close> by (simp add: applyIterationStrategy_def Let_def)
  moreover have "filter isWrite (newEvents w w1) = []"
    using w1 by (simp add: newEvents_def)
  ultimately show ?thesis using w1(1) by blast
qed

theorem target_already_achieved_noop_witness:
  "\<exists>w'. applyIterationStrategy exampleGateway (exampleStrategy 21) 1 500 (exampleWorld [(21, [])])
           = Some (Inr False, w')
         \<and> store w' = store (exampleWorld [(21, [])])
         \<and> filter isWrite (newEvents (exampleWorld [(21, [])]) w') = []"
  using target_already_achieved_noop
          [of exampleGateway "exampleStrategy 21" "exampleWorld [(21, [])]" 1 500]
  by (simp add: isTargetAchieved_def exampleGateway_def exampleSearch_def exampleWorld_def
        exampleStrategy_def)

section \<open>generate\<close>

lemma addAllToSet_log: "log (addAllToSet gw out xs w) = log w @ map (EvAddToSet out) xs"
  by (induction xs arbitrary: w) simp_all

lemma addedToSet_map [simp]: "addedToSet (map (EvAddToSet out) xs) = xs"
  by (induction xs) simp_all

lemma not_successful_addToSet [simp]: "list_ex isSuccessfulGen (map (EvAddToSet out) xs) = False"
  by (induction xs) simp_all

lemma doGenerate_world:
  "doGenerate gw tmpl params w = (ok, g, w') \<Longrightarrow>
     log w' = log w @ [EvBuildTemplate tmpl params, EvGenTemplate tmpl params ok]
     \<and> (ok, g, store w') = HelperGenTemplate gw (store w) (HelperBuildTemplate gw (store w) tmpl params)"
  by (auto simp: doGenerate_def split: prod.splits)

lemma resolveNames_resolved:
  "\<forall>n\<in>set names. resolvedValue g ps n \<noteq> None \<Longrightarrow>
     resolveNames g ps names = Inr (map (\<lambda>n. (n, [the (resolvedValue g ps n)])) names)"
  by (induction names) (auto simp: resolvedValue_def split: option.splits)

lemma resolveNames_unresolved:
  "\<exists>n\<in>set names. resolvedValue g ps n = None \<Longrightarrow>
     \<exists>n\<in>set names. resolvedValue g ps n = None \<and> resolveNames g ps names = Inl (ExceptionInvalidState n)"
proof (induction names)
  case Nil
  then show ?case by simp
next
  case (Cons a names)
  show ?case
  proof (cases "resolvedValue g ps a")
    case None
    then show ?thesis by (auto simp: resolvedValue_def split: option.splits)
  next
    case (Some v)
    with Cons.prems have "\<exists>n\<in>set names. resolvedValue g ps n = None" by auto
    from Cons.IH [OF this] obtain n where
      "n \<in> set names" "resolvedValue g ps n = None"
      "resolveNames g ps names = Inl (ExceptionInvalidState n)" by blast
    with Some show ?thesis by (auto simp: resolvedValue_def split: option.splits)
  qed
qed

lemma generateRow_found:
  "searchTemplate gw (store w) (formulaTemplate node) params \<noteq> [] \<Longrightarrow>
     generateRow gw node varNames params result w
       = (Inr result, logEvent (EvSearchTemplate (formulaTemplate node) params) w)"
  by (simp add: generateRow_def doSearch_def)

lemma generateRow_failed_write:
  assumes "searchTemplate gw (store w) (formulaTemplate node) params = []"
      and "doGenerate gw (formulaTemplate node) params
             (logEvent (EvSearchTemplate (formulaTemplate node) params) w) = (False, g, w2)"
  shows "generateRow gw node varNames params result w
           = (Inr result, addAllToSet gw (outputStructure node) (gen_items g) w2)"
  using assms by (simp add: generateRow_def doSearch_def)

lemma generateRow_written:
  assumes "searchTemplate gw (store w) (formulaTemplate node) params = []"
      and "doGenerate gw (formulaTemplate node) params
             (logEvent (EvSearchTemplate (formulaTemplate node) params) w) = (True, g, w2)"
  shows "generateRow gw node varNames params result w
           = (case resolveNames g params varNames of
                Inl e \<Rightarrow> (Inl e, w2)
              | Inr temporal \<Rightarrow>
                  (Inr (result\<lparr>isGenerated := True, value := True,
                          replacements := uniteReplacements gw (replacements result) temporal\<rparr>),
                   addAllToSet gw (outputStructure node) (gen_items g) w2))"
  using assms by (simp add: generateRow_def doSearch_def)

lemma generateRows_step:
  "\<not> (generateOnlyFirst node \<and> isGenerated result) \<Longrightarrow>
     generateRows gw node varNames (p # rest) result w
       = (case generateRow gw node varNames p result w of
            (Inl e, w1) \<Rightarrow> (Inl e, w1)
          | (Inr result1, w1) \<Rightarrow> generateRows gw node varNames rest result1 w1)"
  by (cases "generateOnlyFirst node"; cases "isGenerated result") simp_all

lemma set_unionVarNames: "set (unionVarNames a b) = set a \<union> set b"
  by (simp add: unionVarNames_def)

lemma generateRows_append:
  "generateRows gw node varNames (earlier @ later) result w
     = (case generateRows gw node varNames earlier result w of
          (Inl e, w1) \<Rightarrow> (Inl e, w1)
        | (Inr result1, w1) \<Rightarrow> generateRows gw node varNames later result1 w1)"
proof (induction earlier arbitrary: result w)
  case Nil
  show ?case by simp
next
  case (Cons p earlier)
  show ?case
  proof (cases "generateOnlyFirst node \<and> isGenerated result")
    case True
    then show ?thesis by (cases later) simp_all
  next
    case False
    show ?thesis
      using Cons.IH
      by (simp add: generateRows_step [OF False] del: generateRows.simps(2)
            split: prod.splits sum.splits)
  qed
qed

text \<open>
  A row that is reached, not found and written: the loop goes on with the united table
  when every name has a value, and is left by the exception otherwise.
\<close>

lemma generateRows_written_row:
  assumes "\<not> (generateOnlyFirst node \<and> isGenerated result)"
      and "searchTemplate gw (store w) (formulaTemplate node) params = []"
      and "doGenerate gw (formulaTemplate node) params
             (logEvent (EvSearchTemplate (formulaTemplate node) params) w) = (True, g, w2)"
  shows "if \<forall>n\<in>set varNames. resolvedValue g params n \<noteq> None
         then generateRows gw node varNames (params # rest) result w
                = generateRows gw node varNames rest
                    (result\<lparr>isGenerated := True, value := True,
                       replacements := uniteReplacements gw (replacements result)
                          (map (\<lambda>n. (n, [the (resolvedValue g params n)])) varNames)\<rparr>)
                    (addAllToSet gw (outputStructure node) (gen_items g) w2)
         else \<exists>n\<in>set varNames. resolvedValue g params n = None
                \<and> generateRows gw node varNames (params # rest) result w
                    = (Inl (ExceptionInvalidState n), w2)"
proof (cases "\<forall>n\<in>set varNames. resolvedValue g params n \<noteq> None")
  case True
  show ?thesis
    by (simp add: generateRows_step [OF assms(1)] generateRow_written [OF assms(2,3)]
          resolveNames_resolved [OF True] True del: generateRows.simps)
next
  case False
  then have "\<exists>n\<in>set varNames. resolvedValue g params n = None" by simp
  from resolveNames_unresolved [OF this] obtain n where
    "n \<in> set varNames" "resolvedValue g params n = None"
    "resolveNames g params varNames = Inl (ExceptionInvalidState n)" by blast
  then show ?thesis
    using False
    by (auto simp add: generateRows_step [OF assms(1)] generateRow_written [OF assms(2,3)]
          simp del: generateRows.simps)
qed

text \<open>
  C7. In \<open>generate\<close> the names resolved are those of the keys of the table together
  with the variable names of the template. After a successful write for a row that the
  loop has reached, every such name gets the value of the generation result if that
  binds the name, otherwise the value of the row's assignment, and \<open>generate\<close> goes
  on with the united table and the remaining rows; if some name has neither,
  \<open>generate\<close> ends with \<open>ExceptionInvalidState\<close> for that name, in the world the
  write has left.
\<close>

theorem generate_resolves_names_or_raises:
  assumes names:
        "names = unionVarNames (getKeySet gw reps)
                   (getVarNames gw (store w) (formulaTemplate node))"
      and rows: "getReplacementsToScTemplateParams gw reps = earlier @ params # rest"
      and reached:
        "generateRows gw node names earlier
           \<lparr>value = value0, isGenerated = False, replacements = []\<rparr>
           (logEvent (EvGetVarNames (formulaTemplate node)) w) = (Inr result, w1)"
      and notbreak: "\<not> (generateOnlyFirst node \<and> isGenerated result)"
      and absent: "searchTemplate gw (store w1) (formulaTemplate node) params = []"
      and commit:
        "doGenerate gw (formulaTemplate node) params
           (logEvent (EvSearchTemplate (formulaTemplate node) params) w1) = (True, g, w2)"
  shows "set names
           = set (getKeySet gw reps) \<union> set (getVarNames gw (store w) (formulaTemplate node))
         \<and> (if \<forall>n\<in>set names. resolvedValue g params n \<noteq> None
            then generate gw node value0 reps w
                   = generateRows gw node names rest
                       (result\<lparr>isGenerated := True, value := True,
                          replacements := uniteReplacements gw (replacements result)
                             (map (\<lambda>n. (n, [the (resolvedValue g params n)])) names)\<rparr>)
                       (addAllToSet gw (outputStructure node) (gen_items g) w2)
            else \<exists>n\<in>set names. resolvedValue g params n = None
                   \<and> generate gw node value0 reps w = (Inl (ExceptionInvalidState n), w2))"
proof -
  have "generate gw node value0 reps w
          = generateRows gw node names (earlier @ params # rest)
              \<lparr>value = value0, isGenerated = False, replacements = []\<rparr>
              (logEvent (EvGetVarNames (formulaTemplate node)) w)"
    using rows by (simp add: generate_def Let_def names)
  also have "\<dots> = generateRows gw node names (params # rest) result w1"
    by (simp add: generateRows_append reached del: generateRows.simps)
  finally have g: "generate gw node value0 reps w
                     = generateRows gw node names (params # rest) result w1" .
  from generateRows_written_row [OF notbreak absent commit, of names rest]
  show ?thesis unfolding g by (simp add: names set_unionVarNames)
qed

theorem generate_resolves_names_or_raises_witness:
  "generate exampleGateway (exampleNode 5) False [(''_x'', [3, 4])]
      (exampleWorld [(5, [(''_x'', 3)])])
    = (Inr \<lparr>value = True, isGenerated = True, replacements = [(''_new'', [1005]), (''_x'', [4])]\<rparr>,
       \<lparr>store = \<lparr>facts = [(5, [(''_x'', 3)]), (5, [(''_x'', 4)])], produced = [(500, 1005)]\<rparr>,
        log = [EvGetVarNames 5, EvSearchTemplate 5 [(''_x'', 3)], EvSearchTemplate 5 [(''_x'', 4)],
               EvBuildTemplate 5 [(''_x'', 4)], EvGenTemplate 5 [(''_x'', 4)] True,
               EvAddToSet 500 1005]\<rparr>)
   \<and> generate exampleGateway (exampleNode 7) False [(''_x'', [3])] (exampleWorld [])
    = (Inl (ExceptionInvalidState ''_z''),
       \<lparr>store = \<lparr>facts = [(7, [(''_x'', 3)])], produced = []\<rparr>,
        log = [EvGetVarNames 7, EvSearchTemplate 7 [(''_x'', 3)], EvBuildTemplate 7 [(''_x'', 3)],
               EvGenTemplate 7 [(''_x'', 3)] True]\<rparr>)"
  using generate_resolves_names_or_raises
          [of "[''_new'', ''_x'']" exampleGateway "[(''_x'', [3, 4])]"
              "exampleWorld [(5, [(''_x'', 3)])]" "exampleNode 5"
              "[[(''_x'', 3)]]" "[(''_x'', 4)]" "[]" False
              "\<lparr>value = False, isGenerated = False, replacements = []\<rparr>"
              "\<lparr>store = \<lparr>facts = [(5, [(''_x'', 3)])], produced = []\<rparr>,
                log = [EvGetVarNames 5, EvSearchTemplate 5 [(''_x'', 3)]]\<rparr>"
              "\<lparr>gen_items = [1005], gen_replacements = [(''_new'', 1005)]\<rparr>"
              "\<lparr>store = \<lparr>facts = [(5, [(''_x'', 3)]), (5, [(''_x'', 4)])], produced = []\<rparr>,
                log = [EvGetVarNames 5, EvSearchTemplate 5 [(''_x'', 3)],
                       EvSearchTemplate 5 [(''_x'', 4)], EvBuildTemplate 5 [(''_x'', 4)],
                       EvGenTemplate 5 [(''_x'', 4)] True]\<rparr>"]
        generate_resolves_names_or_raises
          [of "[''_new'', ''_x'', ''_z'']" exampleGateway "[(''_x'', [3])]"
              "exampleWorld []" "exampleNode 7"
              "[]" "[(''_x'', 3)]" "[]" False
              "\<lparr>value = False, isGenerated = False, replacements = []\<rparr>"
              "\<lparr>store = \<lparr>facts = [], produced = []\<rparr>, log = [EvGetVarNames 7]\<rparr>"
              "\<lparr>gen_items = [1007], gen_replacements = [(''_new'', 1007)]\<rparr>"
              "\<lparr>store = \<lparr>facts = [(7, [(''_x'', 3)])], produced = []\<rparr>,
                log = [EvGetVarNames 7, EvSearchTemplate 7 [(''_x'', 3)],
                       EvBuildTemplate 7 [(''_x'', 3)],
                       EvGenTemplate 7 [(''_x'', 3)] True]\<rparr>"]
  by (simp add: exampleGateway_def exampleNode_def exampleWorld_def exampleSearch_def
        exampleGen_def exampleUnite_def exampleRows_def doGenerate_def doSearch_def
        generateRow_def logEvent_def resolvedValue_def unionVarNames_def)

text \<open>
  C8. When the table converts to no row, \<open>generate\<close> returns what \<open>compute\<close>
  returns on the result whose \<open>isGenerated\<close> is false: a search, no write, the store
  as it was.
\<close>

theorem generate_without_rows_is_compute:
  assumes "getReplacementsToScTemplateParams gw reps = []"
  shows "\<exists>r w'. generate gw node value0 reps w = (Inr r, w')
           \<and> (r, w') = compute gw node \<lparr>value = value0, isGenerated = False, replacements = []\<rparr>
                          (logEvent (EvGetVarNames (formulaTemplate node)) w)
           \<and> isGenerated r = False \<and> store w' = store w
           \<and> filter isWrite (newEvents w w') = []"
proof -
  obtain r w' where c:
    "compute gw node \<lparr>value = value0, isGenerated = False, replacements = []\<rparr>
       (logEvent (EvGetVarNames (formulaTemplate node)) w) = (r, w')"
    by (cases "compute gw node \<lparr>value = value0, isGenerated = False, replacements = []\<rparr>
                 (logEvent (EvGetVarNames (formulaTemplate node)) w)")
  from compute_world [OF c] obtain evs where
    "store w' = store w" "isGenerated r = False"
    "log w' = log w @ EvGetVarNames (formulaTemplate node) # evs" "filter isWrite evs = []"
    by auto
  moreover have "generate gw node value0 reps w = (Inr r, w')"
    using assms c by (simp add: generate_def Let_def)
  ultimately show ?thesis using c by (simp add: newEvents_def)
qed

theorem generate_without_rows_is_compute_witness:
  "\<exists>r w'. generate exampleGateway (exampleNode 5) False [] (exampleWorld [(5, [])]) = (Inr r, w')
           \<and> (r, w') = compute exampleGateway (exampleNode 5)
                          \<lparr>value = False, isGenerated = False, replacements = []\<rparr>
                          (logEvent (EvGetVarNames (formulaTemplate (exampleNode 5)))
                             (exampleWorld [(5, [])]))
           \<and> isGenerated r = False \<and> store w' = store (exampleWorld [(5, [])])
           \<and> filter isWrite (newEvents (exampleWorld [(5, [])]) w') = []"
  using generate_without_rows_is_compute
          [of exampleGateway "[]" "exampleNode 5" False "exampleWorld [(5, [])]"]
  by (simp add: exampleGateway_def exampleRows_def)

text \<open>
  C10. For a row whose search before the write is empty, the elements of the generation
  result are added to the output structure when the write failed, and when it
  succeeded and every name was resolved. A failed write leaves the accumulated result
  as it was, raises nothing, and the loop goes on with the next row.
\<close>

theorem unwritten_row_registers_and_continues:
  assumes "\<not> (generateOnlyFirst node \<and> isGenerated result)"
      and "searchTemplate gw (store w) (formulaTemplate node) params = []"
      and "doGenerate gw (formulaTemplate node) params
             (logEvent (EvSearchTemplate (formulaTemplate node) params) w) = (ok, g, w2)"
  shows "(\<not> ok \<longrightarrow>
            generateRows gw node varNames (params # rest) result w
              = generateRows gw node varNames rest result
                  (addAllToSet gw (outputStructure node) (gen_items g) w2))
         \<and> (ok \<and> (\<forall>n\<in>set varNames. resolvedValue g params n \<noteq> None) \<longrightarrow>
              (\<exists>result1. generateRows gw node varNames (params # rest) result w
                 = generateRows gw node varNames rest result1
                     (addAllToSet gw (outputStructure node) (gen_items g) w2)))
         \<and> addedToSet (newEvents w2 (addAllToSet gw (outputStructure node) (gen_items g) w2))
               = gen_items g"
proof (intro conjI impI)
  assume "\<not> ok"
  with assms(3) have "doGenerate gw (formulaTemplate node) params
             (logEvent (EvSearchTemplate (formulaTemplate node) params) w) = (False, g, w2)"
    by simp
  from generateRow_failed_write [OF assms(2) this]
  show "generateRows gw node varNames (params # rest) result w
              = generateRows gw node varNames rest result
                  (addAllToSet gw (outputStructure node) (gen_items g) w2)"
    by (simp add: generateRows_step [OF assms(1)] del: generateRows.simps)
next
  assume a: "ok \<and> (\<forall>n\<in>set varNames. resolvedValue g params n \<noteq> None)"
  with assms(3) have "doGenerate gw (formulaTemplate node) params
             (logEvent (EvSearchTemplate (formulaTemplate node) params) w) = (True, g, w2)"
    by simp
  from generateRow_written [OF assms(2) this] a
  show "\<exists>result1. generateRows gw node varNames (params # rest) result w
                 = generateRows gw node varNames rest result1
                     (addAllToSet gw (outputStructure node) (gen_items g) w2)"
    by (auto simp add: generateRows_step [OF assms(1)] resolveNames_resolved
          simp del: generateRows.simps)
next
  show "addedToSet (newEvents w2 (addAllToSet gw (outputStructure node) (gen_items g) w2))
               = gen_items g"
    by (simp add: newEvents_def addAllToSet_log)
qed

theorem unwritten_row_registers_and_continues_witness:
  "generateRows exampleGateway (exampleNode 105) [''_new'', ''_x''] [[(''_x'', 3)]]
      \<lparr>value = False, isGenerated = False, replacements = []\<rparr> (exampleWorld [])
    = (Inr \<lparr>value = False, isGenerated = False, replacements = []\<rparr>,
       \<lparr>store = \<lparr>facts = [], produced = [(500, 2105)]\<rparr>,
        log = [EvSearchTemplate 105 [(''_x'', 3)], EvBuildTemplate 105 [(''_x'', 3)],
               EvGenTemplate 105 [(''_x'', 3)] False, EvAddToSet 500 2105]\<rparr>)"
  using unwritten_row_registers_and_continues
          [of "exampleNode 105" "\<lparr>value = False, isGenerated = False, replacements = []\<rparr>"
              exampleGateway "exampleWorld []" "[(''_x'', 3)]" False
              "\<lparr>gen_items = [2105], gen_replacements = []\<rparr>"
              "\<lparr>store = \<lparr>facts = [], produced = []\<rparr>,
                log = [EvSearchTemplate 105 [(''_x'', 3)], EvBuildTemplate 105 [(''_x'', 3)],
                       EvGenTemplate 105 [(''_x'', 3)] False]\<rparr>"
              "[''_new'', ''_x'']" "[]"]
  by (simp add: exampleGateway_def exampleNode_def exampleWorld_def exampleSearch_def
        exampleGen_def doGenerate_def logEvent_def)

text \<open>
  The claim as stated lets the registration run for every such row. On the empty
  example store the row of template 7 is not found, its write succeeds and creates
  element 1007, the name \<open>_z\<close> has no value, and the exception leaves
  \<open>generate\<close> with nothing added to the output structure.
\<close>

theorem written_row_with_unbound_name_registers_nothing:
  "searchTemplate exampleGateway (store (exampleWorld [])) 7 [(''_x'', 3)] = []
   \<and> HelperGenTemplate exampleGateway (store (exampleWorld []))
         (HelperBuildTemplate exampleGateway (store (exampleWorld [])) 7 [(''_x'', 3)])
       = (True, \<lparr>gen_items = [1007], gen_replacements = [(''_new'', 1007)]\<rparr>,
          \<lparr>facts = [(7, [(''_x'', 3)])], produced = []\<rparr>)
   \<and> generate exampleGateway (exampleNode 7) False [(''_x'', [3])] (exampleWorld [])
       = (Inl (ExceptionInvalidState ''_z''),
          \<lparr>store = \<lparr>facts = [(7, [(''_x'', 3)])], produced = []\<rparr>,
           log = [EvGetVarNames 7, EvSearchTemplate 7 [(''_x'', 3)],
                  EvBuildTemplate 7 [(''_x'', 3)], EvGenTemplate 7 [(''_x'', 3)] True]\<rparr>)"
  by (simp add: generate_def generateRow_def doSearch_def doGenerate_def unionVarNames_def
        exampleGateway_def exampleNode_def exampleWorld_def exampleSearch_def exampleGen_def
        exampleRows_def logEvent_def Let_def)

lemma generateRow_value:
  assumes "generateRow gw node varNames params result w = (Inr r, w')"
  shows "\<exists>evs. log w' = log w @ evs
           \<and> isGenerated r = (isGenerated result \<or> list_ex isSuccessfulGen evs)
           \<and> value r = (value result \<or> list_ex isSuccessfulGen evs)"
proof (cases "searchTemplate gw (store w) (formulaTemplate node) params = []")
  case False
  with assms have "r = result"
    "log w' = log w @ [EvSearchTemplate (formulaTemplate node) params]"
    by (auto simp: generateRow_found)
  then show ?thesis by simp
next
  case True
  obtain ok g w2 where gen: "doGenerate gw (formulaTemplate node) params
             (logEvent (EvSearchTemplate (formulaTemplate node) params) w) = (ok, g, w2)"
    by (cases "doGenerate gw (formulaTemplate node) params
             (logEvent (EvSearchTemplate (formulaTemplate node) params) w)")
  from doGenerate_world [OF gen] have l2:
    "log w2 = log w @ [EvSearchTemplate (formulaTemplate node) params,
                       EvBuildTemplate (formulaTemplate node) params,
                       EvGenTemplate (formulaTemplate node) params ok]"
    by simp
  show ?thesis
  proof (cases ok)
    case False
    with gen generateRow_failed_write [OF True, of g w2 varNames result] assms
    have "r = result" "w' = addAllToSet gw (outputStructure node) (gen_items g) w2" by simp_all
    with l2 False show ?thesis by (simp add: addAllToSet_log)
  next
    case ok: True
    with gen generateRow_written [OF True, of g w2 varNames result] assms
    obtain temporal where
      "r = result\<lparr>isGenerated := True, value := True,
                   replacements := uniteReplacements gw (replacements result) temporal\<rparr>"
      "w' = addAllToSet gw (outputStructure node) (gen_items g) w2"
      by (auto split: sum.splits)
    with l2 ok show ?thesis by (simp add: addAllToSet_log)
  qed
qed

lemma generateRows_value:
  "generateRows gw node varNames rows result w = (Inr r, w') \<Longrightarrow>
     \<exists>evs. log w' = log w @ evs
       \<and> isGenerated r = (isGenerated result \<or> list_ex isSuccessfulGen evs)
       \<and> value r = (value result \<or> list_ex isSuccessfulGen evs)"
proof (induction rows arbitrary: result w)
  case Nil
  then show ?case by simp
next
  case (Cons p rows)
  show ?case
  proof (cases "generateOnlyFirst node \<and> isGenerated result")
    case True
    with Cons.prems show ?thesis by simp
  next
    case False
    from Cons.prems generateRows_step [OF False, of gw varNames p rows w]
    obtain r1 w1 where
      row: "generateRow gw node varNames p result w = (Inr r1, w1)" and
      rest: "generateRows gw node varNames rows r1 w1 = (Inr r, w')"
      by (auto split: prod.splits sum.splits)
    from generateRow_value [OF row] obtain evs1 where
      e1: "log w1 = log w @ evs1"
          "isGenerated r1 = (isGenerated result \<or> list_ex isSuccessfulGen evs1)"
          "value r1 = (value result \<or> list_ex isSuccessfulGen evs1)" by blast
    from Cons.IH [OF rest] obtain evs2 where
      e2: "log w' = log w1 @ evs2"
          "isGenerated r = (isGenerated r1 \<or> list_ex isSuccessfulGen evs2)"
          "value r = (value r1 \<or> list_ex isSuccessfulGen evs2)" by blast
    from e1 e2 have "log w' = log w @ (evs1 @ evs2)
       \<and> isGenerated r = (isGenerated result \<or> list_ex isSuccessfulGen (evs1 @ evs2))
       \<and> value r = (value result \<or> list_ex isSuccessfulGen (evs1 @ evs2))"
      by auto
    then show ?thesis by blast
  qed
qed

text \<open>
  What \<open>generate\<close> does assign: for a table with at least one row on which it
  returns, \<open>isGenerated\<close> is true exactly when some row was written successfully,
  and \<open>value\<close> is then true as well; otherwise \<open>value\<close> is what a
  default-constructed result holds.
\<close>

lemma generate_value_is_default_or_written:
  assumes "getReplacementsToScTemplateParams gw reps \<noteq> []"
      and "generate gw node value0 reps w = (Inr r, w')"
  shows "value r = (value0 \<or> list_ex isSuccessfulGen (newEvents w w'))
         \<and> isGenerated r = list_ex isSuccessfulGen (newEvents w w')"
proof -
  from assms have
    "generateRows gw node
       (unionVarNames (getKeySet gw reps) (getVarNames gw (store w) (formulaTemplate node)))
       (getReplacementsToScTemplateParams gw reps)
       \<lparr>value = value0, isGenerated = False, replacements = []\<rparr>
       (logEvent (EvGetVarNames (formulaTemplate node)) w) = (Inr r, w')"
    by (simp add: generate_def Let_def)
  from generateRows_value [OF this] obtain evs where
    "log w' = log w @ EvGetVarNames (formulaTemplate node) # evs"
    "isGenerated r = list_ex isSuccessfulGen evs"
    "value r = (value0 \<or> list_ex isSuccessfulGen evs)"
    by auto
  then show ?thesis by (simp add: newEvents_def)
qed

text \<open>
  C3. The claim: for a table with at least one row, \<open>value\<close> is true exactly when
  some row produced a new fact or already held. The branch of \<open>generate\<close> for a row
  that is found assigns nothing to \<open>value\<close>, while \<open>compute\<close> and \<open>find\<close> set
  it from the search. With the default \<open>value\<close> false, a table whose one row is
  already in the example store gives \<open>value\<close> false; with the default true, a table
  whose one row is neither found nor written gives \<open>value\<close> true.
\<close>

theorem held_row_leaves_value_unset:
  "searchTemplate exampleGateway (store (exampleWorld [(5, [(''_x'', 3)])])) 5 [(''_x'', 3)] \<noteq> []
   \<and> getReplacementsToScTemplateParams exampleGateway [(''_x'', [3])] = [[(''_x'', 3)]]
   \<and> fst (generate exampleGateway (exampleNode 5) False [(''_x'', [3])]
            (exampleWorld [(5, [(''_x'', 3)])]))
       = Inr \<lparr>value = False, isGenerated = False, replacements = []\<rparr>
   \<and> searchTemplate exampleGateway (store (exampleWorld [])) 105 [(''_x'', 3)] = []
   \<and> fst (HelperGenTemplate exampleGateway (store (exampleWorld []))
            (HelperBuildTemplate exampleGateway (store (exampleWorld [])) 105 [(''_x'', 3)]))
       = False
   \<and> fst (generate exampleGateway (exampleNode 105) True [(''_x'', [3])] (exampleWorld []))
       = Inr \<lparr>value = True, isGenerated = False, replacements = []\<rparr>"
  by (simp add: generate_def generateRow_def doSearch_def doGenerate_def unionVarNames_def
        exampleGateway_def exampleNode_def exampleWorld_def exampleSearch_def exampleGen_def
        exampleRows_def logEvent_def Let_def)





section \<open>applyIterationStrategy: the queues\<close>

lemma anyTargetSearch_not_achieved:
  "anyTargetSearch gw target names ps w = (False, w') \<Longrightarrow>
     store w' = store w
     \<and> log w' = log w @ map (\<lambda>p. EvSearchTemplateVars target p names) ps"
proof (induction ps arbitrary: w)
  case Nil
  then show ?case by simp
next
  case (Cons p ps)
  show ?case
  proof (cases "searchTemplateVars gw (store w) target p names \<noteq> []")
    case True
    with Cons.prems show ?thesis by simp
  next
    case False
    with Cons.prems have
      "anyTargetSearch gw target names ps (logEvent (EvSearchTemplateVars target p names) w)
         = (False, w')"
      by simp
    from Cons.IH [OF this] show ?thesis by simp
  qed
qed

text \<open>
  C2. If the target is not achieved on entry and the formulas set gives no queue,
  \<open>applyIterationStrategy\<close> throws \<open>ExceptionItemNotFound\<close> with the message
  "No rule sets found.". The calls made up to then are, in this order, the creation of
  the parameters of the target, the reading of its variable names, one search of the
  target for each of the parameters, and the reading of the queues; the store is as it
  was and no call has written.
\<close>

theorem no_rule_sets_raises_after_target_test:
  assumes "\<not> fst (isTargetAchieved gw strategy
                  (createTargetParams gw (store w) (targetStructure strategy))
                  (logEvent (EvCreateTemplateParams (targetStructure strategy)) w))"
      and "createFormulasQueuesListByPriority gw (store w) formulasSet = []"
  shows "\<exists>w'. applyIterationStrategy gw strategy formulasSet out w
                 = Some (Inl (ExceptionItemNotFound ''No rule sets found.''), w')
           \<and> store w' = store w
           \<and> newEvents w w'
               = [EvCreateTemplateParams (targetStructure strategy),
                  EvGetVarNames (targetStructure strategy)]
                 @ map (\<lambda>p. EvSearchTemplateVars (targetStructure strategy) p
                               (getVarNames gw (store w) (targetStructure strategy)))
                     (createTargetParams gw (store w) (targetStructure strategy))
                 @ [EvCreateFormulasQueues formulasSet]
           \<and> filter isWrite (newEvents w w') = []"
proof -
  let ?t = "targetStructure strategy"
  let ?tpv = "createTargetParams gw (store w) ?t"
  let ?names = "getVarNames gw (store w) ?t"
  obtain b w1 where tgt:
    "isTargetAchieved gw strategy ?tpv (logEvent (EvCreateTemplateParams ?t) w) = (b, w1)"
    by (cases "isTargetAchieved gw strategy ?tpv (logEvent (EvCreateTemplateParams ?t) w)")
  with assms(1) have "\<not> b" by simp
  with tgt have "anyTargetSearch gw ?t ?names ?tpv
                   (logEvent (EvGetVarNames ?t) (logEvent (EvCreateTemplateParams ?t) w))
                 = (False, w1)"
    by (simp add: isTargetAchieved_def)
  from anyTargetSearch_not_achieved [OF this] have
    w1: "store w1 = store w"
        "log w1 = log w @ [EvCreateTemplateParams ?t, EvGetVarNames ?t]
                   @ map (\<lambda>p. EvSearchTemplateVars ?t p ?names) ?tpv"
    by simp_all
  let ?w2 = "logEvent (EvCreateFormulasQueues formulasSet) w1"
  have "applyIterationStrategy gw strategy formulasSet out w
          = Some (Inl (ExceptionItemNotFound ''No rule sets found.''), ?w2)"
    using tgt \<open>\<not> b\<close> assms(2) w1(1) by (simp add: applyIterationStrategy_def Let_def)
  moreover have "newEvents w ?w2
       = [EvCreateTemplateParams ?t, EvGetVarNames ?t]
         @ map (\<lambda>p. EvSearchTemplateVars ?t p ?names) ?tpv
         @ [EvCreateFormulasQueues formulasSet]"
    using w1(2) by (simp add: newEvents_def)
  moreover have "filter isWrite (newEvents w ?w2) = []"
    using w1(2) by (simp add: newEvents_def filter_empty_conv)
  moreover have "store ?w2 = store w" using w1(1) by simp
  ultimately show ?thesis by blast
qed

theorem no_rule_sets_raises_after_target_test_witness:
  "\<exists>w'. applyIterationStrategy exampleGateway (exampleStrategy 21) 0 500 (exampleWorld [])
                 = Some (Inl (ExceptionItemNotFound ''No rule sets found.''), w')
           \<and> store w' = store (exampleWorld [])
           \<and> newEvents (exampleWorld []) w'
               = [EvCreateTemplateParams 21, EvGetVarNames 21,
                  EvSearchTemplateVars 21 [] [''_new''], EvCreateFormulasQueues 0]
           \<and> filter isWrite (newEvents (exampleWorld []) w') = []"
  using no_rule_sets_raises_after_target_test
          [of exampleGateway "exampleStrategy 21" "exampleWorld []" 0 500]
  by (simp add: isTargetAchieved_def exampleGateway_def exampleSearch_def exampleWorld_def
        exampleStrategy_def)

text \<open>
  The claim as stated has the exception whenever there is no queue, and before any
  call of the store. With the target already in the example store the function returns
  false and throws nothing; with the target absent the exception comes after the
  parameters of the target were created, its variable names read and one search run.
\<close>

theorem no_rule_sets_after_searches_or_no_error:
  "createFormulasQueuesListByPriority exampleGateway (store (exampleWorld [(21, [])])) 0 = []
   \<and> applyIterationStrategy exampleGateway (exampleStrategy 21) 0 500 (exampleWorld [(21, [])])
       = Some (Inr False,
               \<lparr>store = \<lparr>facts = [(21, [])], produced = []\<rparr>,
                log = [EvCreateTemplateParams 21, EvGetVarNames 21,
                       EvSearchTemplateVars 21 [] [''_new'']]\<rparr>)
   \<and> createFormulasQueuesListByPriority exampleGateway (store (exampleWorld [])) 0 = []
   \<and> applyIterationStrategy exampleGateway (exampleStrategy 21) 0 500 (exampleWorld [])
       = Some (Inl (ExceptionItemNotFound ''No rule sets found.''),
               \<lparr>store = \<lparr>facts = [], produced = []\<rparr>,
                log = [EvCreateTemplateParams 21, EvGetVarNames 21,
                       EvSearchTemplateVars 21 [] [''_new''], EvCreateFormulasQueues 0]\<rparr>)"
  by (simp add: applyIterationStrategy_def isTargetAchieved_def exampleGateway_def
        exampleSearch_def exampleWorld_def exampleStrategy_def logEvent_def Let_def)


lemma usedFormulas_map [simp]: "usedFormulas (map EvUseFormula fs) = fs"
  by (induction fs) simp_all







section \<open>applyIterationStrategy: the restart\<close>

text \<open>
  The restart in the inner loop: the checked formulas go to the back of the queue, the
  formula that generated is popped, the checked vector is cleared and the index is 0.
  The outer loop then increments the index, so the next queue it reads is the second.
\<close>

lemma whileUnchecked_restart:
  assumes "doUseFormula gw formula out w = (Inr formulaResult, w1)"
      and "isGenerated formulaResult"
      and "isTargetAchieved gw strategy tpv
             (if generateSolutionTree strategy then doAddNode gw formula formulaResult w1 else w1)
           = (False, w2)"
  shows "whileUnchecked gw strategy out tpv (formula # popped) cs idx w
           = whileUnchecked gw strategy out tpv (popped @ cs) [] 0 w2"
  by (subst whileUnchecked.simps) (simp add: assms addToQueue_def)

lemma forQueues_after_restart:
  assumes "idx < length queues"
      and "whileUnchecked gw strategy out tpv (queues ! idx) cs idx w = (Inr (cs1, 0, False), w1)"
  shows "forQueues gw strategy out tpv queues cs idx False w
           = forQueues gw strategy out tpv queues cs1 1 False w1"
  by (subst forQueues.simps) (simp add: assms)

text \<open>
  C4. The claim: after a formula has generated and the target is still not achieved,
  scanning resumes from the first queue. The example has the queues [1] and [2] and
  the store holds fact 10. Formula 1 generates fact 11; formula 2 then generates fact
  20, which formula 1 would turn into the target 21. The index is reset to 0 and
  incremented by the loop, the second queue is read again, formula 2 generates nothing,
  and the function returns false with formula 1 applied once.
\<close>

theorem generated_first_tier_formula_is_not_retried:
  "applyIterationStrategy exampleGateway (exampleStrategy 21) 2 500 (exampleWorld [(10, [])])
     = Some (Inr False,
             \<lparr>store = \<lparr>facts = [(10, []), (11, []), (20, [])], produced = []\<rparr>,
              log = [EvCreateTemplateParams 21, EvGetVarNames 21,
                     EvSearchTemplateVars 21 [] [''_new''], EvCreateFormulasQueues 2,
                     EvUseFormula 1, EvGetVarNames 21, EvSearchTemplateVars 21 [] [''_new''],
                     EvUseFormula 2, EvGetVarNames 21, EvSearchTemplateVars 21 [] [''_new''],
                     EvUseFormula 2]\<rparr>)"
  by (simp add: applyIterationStrategy_def forQueues.simps whileUnchecked.simps
        isTargetAchieved_def doUseFormula_def addToQueue_def exampleGateway_def
        exampleSearch_def exampleWorld_def exampleStrategy_def exampleUseFormula_def
        exampleRules_def logEvent_def Let_def)

end
